theory Spec2Isabelle
  imports Main
begin

section \<open>Data model\<close>

text \<open>
  The \<open>users\<close> table of \<open>entities/user.py\<close>. Timestamps are integers counting
  microseconds (the resolution of a Python \<open>datetime\<close>); nullable columns are options.
\<close>

record user =
  user_id :: nat
  username :: string
  email :: string
  password :: string
  keycloak_user_id :: "string option"
  last_synced_at :: "int option"
  profile_picture_url :: "string option"

type_synonym db = "user list"

text \<open>The dictionary returned by \<open>verify_keycloak_token\<close> (\<open>auth/keycloak_client.py\<close>).\<close>

record token_info =
  ti_keycloak_user_id :: "string option"
  ti_preferred_username :: "string option"
  ti_email :: "string option"
  ti_active :: bool

text \<open>Python truthiness of an optional string: \<open>None\<close> and \<open>""\<close> are both falsy.\<close>

fun truthy :: "string option \<Rightarrow> bool" where
  "truthy None = False"
| "truthy (Some s) = (s \<noteq> [])"

text \<open>\<open>a or b\<close> on an optional string and a string.\<close>

fun or_else :: "string option \<Rightarrow> string \<Rightarrow> string" where
  "or_else None d = d"
| "or_else (Some s) d = (if s = [] then d else s)"

section \<open>Staleness policy\<close>

text \<open>
  \<open>get_current_user\<close>, lines 120-125 of \<open>auth/service.py\<close>. \<open>now\<close> is the reading of
  \<open>datetime.utcnow()\<close>; \<open>total_seconds() > 86400\<close> is a comparison of microsecond counts.
  \<open>user.email != email\<close> compares the stored string with the claim as it is, \<open>None\<close>
  included.
\<close>

definition should_sync :: "int \<Rightarrow> user \<Rightarrow> string \<Rightarrow> string option \<Rightarrow> bool" where
  "should_sync now u uname em =
     (case last_synced_at u of
        None \<Rightarrow> True
      | Some t \<Rightarrow> now - t > 86400 * 1000000 \<or> username u \<noteq> uname \<or> Some (email u) \<noteq> em)"

text \<open>
  The staleness policy in the words of the specification: the email comparison counts only
  when the email claim is non-empty.
\<close>

definition should_sync_spec :: "int \<Rightarrow> user \<Rightarrow> string \<Rightarrow> string option \<Rightarrow> bool" where
  "should_sync_spec now u uname em =
     (last_synced_at u = None
      \<or> (\<exists>t. last_synced_at u = Some t \<and> now - t > 86400 * 1000000)
      \<or> username u \<noteq> uname
      \<or> (Some (email u) \<noteq> em \<and> truthy em))"

section \<open>Exceptions\<close>

text \<open>
  Every \<open>raise\<close> of the source is a value. \<open>HTTPException\<close> carries the status code
  and the detail; the other classes carry their message. All of them derive from Python's
  \<open>Exception\<close>.
\<close>

datatype exn_class =
    JWTError | MultipleResultsFound | IntegrityError | KeycloakError
  | RequestsError | HTTPError | ValueError | PlainException

datatype exn = HTTPException nat string | Raised exn_class string

section \<open>The SQL session\<close>

text \<open>\<open>Result.scalar_one_or_none()\<close>: no row, the single row, or an exception.\<close>

fun scalar_one_or_none :: "user list \<Rightarrow> exn + user option" where
  "scalar_one_or_none [] = Inr None"
| "scalar_one_or_none [u] = Inr (Some u)"
| "scalar_one_or_none (u # v # rest) =
     Inl (Raised MultipleResultsFound ''Multiple rows were found when one or none was required'')"

text \<open>
  The unique indexes of the table (\<open>username\<close>, \<open>email\<close>, and \<open>keycloak_user_id\<close>
  where it is not null): \<open>conflicts d u\<close> holds when writing \<open>u\<close> would collide with
  another row of \<open>d\<close>.
\<close>

definition conflicts :: "db \<Rightarrow> user \<Rightarrow> bool" where
  "conflicts d u =
     list_ex (\<lambda>r. user_id r \<noteq> user_id u \<and>
                (username r = username u \<or> email r = email u \<or>
                 (keycloak_user_id r \<noteq> None \<and> keycloak_user_id r = keycloak_user_id u))) d"

definition next_id :: "db \<Rightarrow> nat" where
  "next_id d = Suc (fold max (map user_id d) 0)"

text \<open>\<open>db.add(user); await db.commit(); await db.refresh(user)\<close> for a new row.\<close>

definition commit_insert :: "db \<Rightarrow> user \<Rightarrow> exn + (db \<times> user)" where
  "commit_insert d u =
     (let u' = u\<lparr>user_id := next_id d\<rparr>
      in if conflicts d u' then Inl (Raised IntegrityError ''UNIQUE constraint failed'')
         else Inr (d @ [u'], u'))"

text \<open>\<open>await db.commit(); await db.refresh(user)\<close> after attribute writes on a loaded row.\<close>

definition commit_update :: "db \<Rightarrow> user \<Rightarrow> exn + (db \<times> user)" where
  "commit_update d u =
     (if conflicts d u then Inl (Raised IntegrityError ''UNIQUE constraint failed'')
      else Inr (map (\<lambda>r. if user_id r = user_id u then u else r) d, u))"

section \<open>Strings\<close>

text \<open>
  A string is the list of the bytes of its UTF-8 encoding. \<open>str.lower()\<close> and
  \<open>str.capitalize()\<close> follow the Unicode tables of the Python runtime, which are not
  part of the repository: on a string of ASCII characters they change the letters
  \<open>A-Z\<close> and \<open>a-z\<close> and nothing else, and on every other string their result is taken
  from the runtime.
\<close>

record py_runtime =
  unicode_lower :: "string \<Rightarrow> string"
  unicode_capitalize :: "string \<Rightarrow> string"

definition is_ascii :: "string \<Rightarrow> bool" where
  "is_ascii s = list_all (\<lambda>c. \<not> digit7 c) s"

definition lower_char :: "char \<Rightarrow> char" where
  "lower_char c =
     (case map_of (zip ''ABCDEFGHIJKLMNOPQRSTUVWXYZ'' ''abcdefghijklmnopqrstuvwxyz'') c of
        None \<Rightarrow> c | Some l \<Rightarrow> l)"

definition upper_char :: "char \<Rightarrow> char" where
  "upper_char c =
     (case map_of (zip ''abcdefghijklmnopqrstuvwxyz'' ''ABCDEFGHIJKLMNOPQRSTUVWXYZ'') c of
        None \<Rightarrow> c | Some l \<Rightarrow> l)"

text \<open>\<open>s.lower()\<close>\<close>

definition py_lower :: "py_runtime \<Rightarrow> string \<Rightarrow> string" where
  "py_lower rt s = (if is_ascii s then map lower_char s else unicode_lower rt s)"

text \<open>\<open>s.capitalize()\<close>: first character upper case, the rest lower case.\<close>

definition capitalize :: "py_runtime \<Rightarrow> string \<Rightarrow> string" where
  "capitalize rt s =
     (if is_ascii s
      then (case s of [] \<Rightarrow> [] | c # cs \<Rightarrow> upper_char c # map lower_char cs)
      else unicode_capitalize rt s)"

text \<open>\<open>s.replace(' ', '.')\<close>\<close>

definition replace_space :: "string \<Rightarrow> string" where
  "replace_space s = map (\<lambda>c. if c = CHR '' '' then CHR ''.'' else c) s"

text \<open>\<open>s.split("/")[-1]\<close>: what follows the last slash.\<close>

definition last_segment :: "string \<Rightarrow> string" where
  "last_segment s = rev (takeWhile (\<lambda>c. c \<noteq> CHR ''/'') (rev s))"

text \<open>The decimal rendering of a natural number, as an f-string prints it.\<close>

definition digit_char :: "nat \<Rightarrow> char" where
  "digit_char n = ''0123456789'' ! n"

fun str_of_nat :: "nat \<Rightarrow> string" where
  "str_of_nat n =
     (if n < 10 then [digit_char n] else str_of_nat (n div 10) @ [digit_char (n mod 10)])"

declare str_of_nat.simps [simp del]

text \<open>\<open>str(e)\<close> of an exception; for \<open>HTTPException\<close> it is \<open>"{status_code}: {detail}"\<close>.\<close>

fun exn_str :: "exn \<Rightarrow> string" where
  "exn_str (HTTPException c m) = str_of_nat c @ '': '' @ m"
| "exn_str (Raised c m) = m"

section \<open>Identity-provider adapter\<close>

text \<open>
  The user representation exchanged with the admin API (\<open>auth/keycloak_client.py\<close>).
  A key that is missing or null is \<open>None\<close>.
\<close>

record kc_user =
  kc_username :: "string option"
  kc_email :: "string option"
  kc_firstName :: "string option"
  kc_lastName :: "string option"
  kc_enabled :: "bool option"
  kc_emailVerified :: "bool option"
  kc_attributes :: "(string \<times> string list) list option"
  kc_requiredActions :: "string list option"

record http_response =
  status_code :: nat
  response_text :: string

text \<open>
  The identity provider as \<open>create_user_in_keycloak\<close> sees it: the admin token request,
  the POST that creates the user (status and \<open>Location\<close> header), the search by username
  (status and the ids found, in order), the PUT of the password, the GET of the user
  and the PUT of the merged user. A transport failure is an exception.
\<close>

record kc_admin =
  admin_token :: "exn + string option"
  post_user :: "kc_user \<Rightarrow> exn + nat \<times> string option"
  search_users :: "string \<Rightarrow> exn + nat \<times> string list"
  put_password :: "string \<Rightarrow> string \<Rightarrow> exn + http_response"
  get_user :: "string \<Rightarrow> exn + nat \<times> kc_user"
  put_user :: "string \<Rightarrow> kc_user \<Rightarrow> exn + http_response"

text \<open>\<open>response.raise_for_status()\<close>\<close>

definition raise_for_status :: "nat \<Rightarrow> exn + unit" where
  "raise_for_status s =
     (if 400 \<le> s \<and> s < 600 then Inl (Raised HTTPError (str_of_nat s @ '' Error'')) else Inr ())"

text \<open>Lines 123-141: the body of the creating POST.\<close>

definition user_data_no_password ::
  "py_runtime \<Rightarrow> string \<Rightarrow> string \<Rightarrow> string option \<Rightarrow> string option \<Rightarrow> string option \<Rightarrow>
   string option \<Rightarrow> kc_user" where
  "user_data_no_password rt uname em first_name last_name date_of_birth phone_number =
     \<lparr>kc_username = Some uname, kc_email = Some em,
      kc_firstName = Some (or_else first_name (capitalize rt uname)),
      kc_lastName = Some (or_else last_name ''User''),
      kc_enabled = Some True, kc_emailVerified = Some False,
      kc_attributes = Some
        ((if truthy date_of_birth then [(''dateOfBirth'', [the date_of_birth])] else []) @
         (if truthy phone_number then [(''phoneNumber'', [the phone_number])] else [])),
      kc_requiredActions = None\<rparr>"

text \<open>Lines 147-162: the id from the \<open>Location\<close> header, else from a search.\<close>

definition recover_user_id :: "kc_admin \<Rightarrow> string \<Rightarrow> string option \<Rightarrow> exn + string" where
  "recover_user_id k uname location =
     (if truthy location then Inr (last_segment (the location))
      else (case search_users k uname of
              Inl x \<Rightarrow> Inl x
            | Inr (s, ids) \<Rightarrow>
                (case raise_for_status s of
                   Inl x \<Rightarrow> Inl x
                 | Inr _ \<Rightarrow>
                     (case ids of
                        [] \<Rightarrow> Inl (Raised PlainException ''User created but ID not found'')
                      | i # _ \<Rightarrow> Inr i))))"

text \<open>Lines 191-207: the merged record of the finalizing PUT.\<close>

definition update_data :: "py_runtime \<Rightarrow> string \<Rightarrow> kc_user \<Rightarrow> kc_user" where
  "update_data rt uname cur =
     cur\<lparr>kc_firstName := (if truthy (kc_firstName cur) then kc_firstName cur
                           else Some (capitalize rt uname)),
         kc_lastName := (if truthy (kc_lastName cur) then kc_lastName cur else Some ''User''),
         kc_attributes := (case kc_attributes cur of None \<Rightarrow> Some [] | Some a \<Rightarrow> Some a),
         kc_enabled := Some True,
         kc_requiredActions := Some []\<rparr>"

text \<open>
  Lines 184-225: the GET and the finalizing PUT. A status other than 200 of the GET, or
  other than 200 and 204 of the PUT, is logged as a warning and nothing else.
\<close>

definition finalize_user :: "py_runtime \<Rightarrow> kc_admin \<Rightarrow> string \<Rightarrow> string \<Rightarrow> exn + string" where
  "finalize_user rt k uname uid =
     (case get_user k uid of
        Inl x \<Rightarrow> Inl x
      | Inr (s, cur) \<Rightarrow>
          if s = 200
          then (case put_user k uid (update_data rt uname cur) of
                  Inl x \<Rightarrow> Inl x
                | Inr r \<Rightarrow> Inr uid)
          else Inr uid)"

text \<open>Lines 166-181: the PUT of the password.\<close>

definition set_password :: "kc_admin \<Rightarrow> string \<Rightarrow> string \<Rightarrow> string \<Rightarrow> exn + unit" where
  "set_password k uname pw uid =
     (case put_password k uid pw of
        Inl x \<Rightarrow> Inl x
      | Inr r \<Rightarrow>
          if status_code r \<noteq> 200 \<and> status_code r \<noteq> 204
          then Inl (Raised PlainException
                 (''Failed to set password for user '' @ uname @ '': '' @
                  str_of_nat (status_code r) @ '' - '' @ response_text r))
          else Inr ())"

text \<open>
  \<open>create_user_in_keycloak\<close>. Its handler \<open>except Exception\<close> logs and raises the same
  exception again.
\<close>

definition create_user_in_keycloak ::
  "py_runtime \<Rightarrow> kc_admin \<Rightarrow> string \<Rightarrow> string \<Rightarrow> string \<Rightarrow> string option \<Rightarrow> string option \<Rightarrow>
   string option \<Rightarrow> string option \<Rightarrow> exn + string" where
  "create_user_in_keycloak rt k uname em pw first_name last_name date_of_birth phone_number =
     (case admin_token k of
        Inl x \<Rightarrow> Inl x
      | Inr tok \<Rightarrow>
          (case post_user k (user_data_no_password rt uname em first_name last_name
                               date_of_birth phone_number) of
             Inl x \<Rightarrow> Inl x
           | Inr (s, location) \<Rightarrow>
               (case raise_for_status s of
                  Inl x \<Rightarrow> Inl x
                | Inr _ \<Rightarrow>
                    (case recover_user_id k uname location of
                       Inl x \<Rightarrow> Inl x
                     | Inr uid \<Rightarrow>
                         (case set_password k uname pw uid of
                            Inl x \<Rightarrow> Inl x
                          | Inr _ \<Rightarrow> finalize_user rt k uname uid)))))"

section \<open>Bearer resolution\<close>

record jwt_payload =
  jp_sub :: "string option"
  jp_id :: "nat option"

text \<open>
  What a request reads from outside the database: the \<open>USE_KEYCLOAK\<close> flag, the
  outcome of \<open>verify_keycloak_token\<close> and of \<open>jwt.decode\<close> for a token, the clock
  (one reading of \<open>datetime.utcnow()\<close> per request), the admin API, the password grant
  (\<open>client.token(username, password)["access_token"]\<close>), the \<open>bcrypt\<close> library
  (\<open>checkpw\<close>, and \<open>hashpw\<close> with a fresh salt), \<open>jwt.encode\<close> of subject, id and
  expiry, and the Unicode tables of the runtime.
\<close>

record env =
  use_keycloak :: bool
  verify_keycloak_token :: "string \<Rightarrow> exn + token_info"
  jwt_decode :: "string \<Rightarrow> exn + jwt_payload"
  utcnow :: int
  keycloak_admin :: kc_admin
  keycloak_token :: "string \<Rightarrow> string \<Rightarrow> exn + string"
  bcrypt_checkpw :: "string \<Rightarrow> string \<Rightarrow> exn + bool"
  bcrypt_hashpw :: "string \<Rightarrow> exn + string"
  jwt_encode :: "string \<Rightarrow> nat \<Rightarrow> int \<Rightarrow> string"
  runtime :: py_runtime

text \<open>Lines 91-97: look the row up by \<open>keycloak_user_id\<close>, then by \<open>username\<close>.\<close>

definition lookup_user :: "db \<Rightarrow> string \<Rightarrow> string \<Rightarrow> exn + user option" where
  "lookup_user d kid uname =
     (case scalar_one_or_none (filter (\<lambda>u. keycloak_user_id u = Some kid) d) of
        Inl x \<Rightarrow> Inl x
      | Inr (Some u) \<Rightarrow> Inr (Some u)
      | Inr None \<Rightarrow> scalar_one_or_none (filter (\<lambda>u. username u = uname) d))"

text \<open>Lines 101-110: the row created on the first login.\<close>

definition new_user :: "int \<Rightarrow> string \<Rightarrow> string \<Rightarrow> string option \<Rightarrow> user" where
  "new_user now kid uname em =
     \<lparr>user_id = 0, username = uname, email = or_else em (uname @ ''@keycloak.local''),
      password = [], keycloak_user_id = Some kid, last_synced_at = Some now,
      profile_picture_url = None\<rparr>"

text \<open>Lines 115-116: the attribute write on the loaded row.\<close>

definition upgrade_id :: "user \<Rightarrow> string \<Rightarrow> user" where
  "upgrade_id u kid =
     (if \<not> truthy (keycloak_user_id u) then u\<lparr>keycloak_user_id := Some kid\<rparr> else u)"

text \<open>Lines 128-130: the attribute writes of a sync.\<close>

definition synced :: "int \<Rightarrow> user \<Rightarrow> string \<Rightarrow> string option \<Rightarrow> user" where
  "synced now u uname em =
     u\<lparr>username := uname, email := or_else em (email u), last_synced_at := Some now\<rparr>"

text \<open>
  Lines 113-133. Without a sync nothing is committed: the database is returned as it was
  and the returned object carries the attribute write of line 116, if any.
\<close>

definition sync_existing ::
  "int \<Rightarrow> db \<Rightarrow> user \<Rightarrow> string \<Rightarrow> string \<Rightarrow> string option \<Rightarrow> exn + (db \<times> user)" where
  "sync_existing now d u kid uname em =
     (let u1 = upgrade_id u kid
      in if should_sync now u1 uname em then commit_update d (synced now u1 uname em)
         else Inr (d, u1))"

text \<open>The \<open>USE_KEYCLOAK\<close> branch of the \<open>try\<close> block, lines 72-135.\<close>

definition resolve_keycloak :: "env \<Rightarrow> string \<Rightarrow> db \<Rightarrow> exn + (db \<times> user)" where
  "resolve_keycloak e token d =
     (case verify_keycloak_token e token of
        Inl x \<Rightarrow> Inl x
      | Inr ti \<Rightarrow>
          if \<not> ti_active ti then Inl (HTTPException 401 ''Token is not active.'')
          else if \<not> truthy (ti_preferred_username ti) \<or> \<not> truthy (ti_keycloak_user_id ti)
          then Inl (HTTPException 401 ''Could not validate user.'')
          else (case (ti_preferred_username ti, ti_keycloak_user_id ti) of
                  (Some uname, Some kid) \<Rightarrow>
                    (case lookup_user d kid uname of
                       Inl x \<Rightarrow> Inl x
                     | Inr None \<Rightarrow>
                         commit_insert d (new_user (utcnow e) kid uname (ti_email ti))
                     | Inr (Some u) \<Rightarrow>
                         sync_existing (utcnow e) d u kid uname (ti_email ti))
                | _ \<Rightarrow> Inl (HTTPException 401 ''Could not validate user.'')))"

text \<open>The legacy branch of the \<open>try\<close> block, lines 138-155.\<close>

definition resolve_legacy :: "env \<Rightarrow> string \<Rightarrow> db \<Rightarrow> exn + (db \<times> user)" where
  "resolve_legacy e token d =
     (case jwt_decode e token of
        Inl x \<Rightarrow> Inl x
      | Inr p \<Rightarrow>
          (case (jp_sub p, jp_id p) of
             (Some s, Some i) \<Rightarrow>
               (case scalar_one_or_none (filter (\<lambda>u. user_id u = i) d) of
                  Inl x \<Rightarrow> Inl x
                | Inr None \<Rightarrow> Inl (HTTPException 401 ''User not found.'')
                | Inr (Some u) \<Rightarrow> Inr (d, u))
           | _ \<Rightarrow> Inl (HTTPException 401 ''Could not validate user.'')))"

text \<open>
  \<open>get_current_user\<close>: the \<open>try\<close> block and its handler \<open>except (JWTError, Exception)\<close>,
  which replaces whatever was raised. A failed call commits nothing.
\<close>

definition get_current_user :: "env \<Rightarrow> string \<Rightarrow> db \<Rightarrow> exn + (db \<times> user)" where
  "get_current_user e token d =
     (case (if use_keycloak e then resolve_keycloak e token d else resolve_legacy e token d) of
        Inl x \<Rightarrow> Inl (HTTPException 401 ''Could not validate user.'')
      | Inr r \<Rightarrow> Inr r)"

text \<open>\<open>get_current_user_optional\<close>: only \<open>HTTPException\<close> is caught.\<close>

definition get_current_user_optional ::
  "env \<Rightarrow> string option \<Rightarrow> db \<Rightarrow> exn + (db \<times> user option)" where
  "get_current_user_optional e token d =
     (case token of
        None \<Rightarrow> Inr (d, None)
      | Some t \<Rightarrow>
          if t = [] then Inr (d, None)
          else (case get_current_user e t d of
                  Inl (HTTPException c m) \<Rightarrow> Inr (d, None)
                | Inl (Raised c m) \<Rightarrow> Inl (Raised c m)
                | Inr (d', u) \<Rightarrow> Inr (d', Some u)))"

section \<open>Local passwords and login\<close>

text \<open>\<open>verify_password\<close> and \<open>get_password_hash\<close> (\<open>auth/service.py\<close>, lines 35-46).\<close>

definition verify_password :: "env \<Rightarrow> string \<Rightarrow> string \<Rightarrow> exn + bool" where
  "verify_password e plain_password hashed_password =
     bcrypt_checkpw e plain_password hashed_password"

definition get_password_hash :: "env \<Rightarrow> string \<Rightarrow> exn + string" where
  "get_password_hash e pw = bcrypt_hashpw e pw"

text \<open>\<open>authenticate_user\<close>, lines 49-59.\<close>

definition authenticate_user :: "env \<Rightarrow> string \<Rightarrow> string \<Rightarrow> db \<Rightarrow> exn + user option" where
  "authenticate_user e uname pw d =
     (case scalar_one_or_none (filter (\<lambda>u. username u = uname) d) of
        Inl x \<Rightarrow> Inl x
      | Inr None \<Rightarrow> Inr None
      | Inr (Some u) \<Rightarrow>
          (case verify_password e pw (password u) of
             Inl x \<Rightarrow> Inl x
           | Inr ok \<Rightarrow> if \<not> ok then Inr None else Inr (Some u)))"

text \<open>\<open>create_access_token\<close>, lines 28-32.\<close>

definition create_access_token :: "env \<Rightarrow> string \<Rightarrow> nat \<Rightarrow> int \<Rightarrow> string" where
  "create_access_token e uname uid expires_delta = jwt_encode e uname uid (utcnow e + expires_delta)"

record token_response =
  access_token :: string
  token_type :: string

text \<open>\<open>login_for_access_token\<close> (\<open>auth/controller.py\<close>). It writes nothing.\<close>

definition login_for_access_token :: "env \<Rightarrow> string \<Rightarrow> string \<Rightarrow> db \<Rightarrow> exn + token_response" where
  "login_for_access_token e uname pw d =
     (if use_keycloak e
      then (case keycloak_token e uname pw of
              Inl x \<Rightarrow> Inl (HTTPException 401 ''Incorrect username or password'')
            | Inr t \<Rightarrow> Inr \<lparr>access_token = t, token_type = ''bearer''\<rparr>)
      else (case authenticate_user e uname pw d of
              Inl x \<Rightarrow> Inl x
            | Inr None \<Rightarrow> Inl (HTTPException 401 ''Incorrect username or password'')
            | Inr (Some u) \<Rightarrow>
                Inr \<lparr>access_token = create_access_token e (username u) (user_id u) (30 * 60 * 1000000),
                     token_type = ''bearer''\<rparr>))"

section \<open>Registration\<close>

record register_request =
  rr_email :: string
  rr_password :: string
  rr_first_name :: string
  rr_last_name :: string
  rr_date_of_birth :: "string option"
  rr_phone_number :: "string option"

record register_response =
  message :: string
  resp_user_id :: nat
  resp_keycloak_user_id :: "string option"

text \<open>\<open>register\<close>, line 27: the base of the generated username.\<close>

definition base_username :: "py_runtime \<Rightarrow> string \<Rightarrow> string \<Rightarrow> string" where
  "base_username rt first_name last_name =
     replace_space (py_lower rt first_name) @ ''.'' @ replace_space (py_lower rt last_name)"



text \<open>
  Lines 31-38: the \<open>while True\<close> loop. \<open>uname\<close> is the name being tried and \<open>counter\<close>
  the number appended next.
\<close>

function probe_username :: "db \<Rightarrow> string \<Rightarrow> string \<Rightarrow> nat \<Rightarrow> exn + string" where
  "probe_username d base uname counter =
     (case scalar_one_or_none (filter (\<lambda>u. username u = uname) d) of
        Inl x \<Rightarrow> Inl x
      | Inr None \<Rightarrow> Inr uname
      | Inr (Some existing_user) \<Rightarrow>
          probe_username d base (base @ str_of_nat counter) (counter + 1))"
  by pat_completeness auto

text \<open>
  The loop terminates: the decimal renderings of distinct counters are distinct, so only
  finitely many of the names still to be tried are rows of the table.
\<close>

lemma digit_char_inj: "m < 10 \<Longrightarrow> n < 10 \<Longrightarrow> digit_char m = digit_char n \<Longrightarrow> m = n"
proof -
  assume a: "m < 10" "n < 10" "digit_char m = digit_char n"
  have d: "distinct ''0123456789''" by simp
  have l: "length ''0123456789'' = 10" by simp
  from a d l show "m = n"
    unfolding digit_char_def by (metis nth_eq_iff_index_eq)
qed

lemma str_of_nat_nonempty: "str_of_nat n \<noteq> []"
  by (subst str_of_nat.simps) simp

lemma str_of_nat_inj: "str_of_nat m = str_of_nat n \<Longrightarrow> m = n"
proof (induction m arbitrary: n rule: str_of_nat.induct)
  case (1 m)
  show ?case
  proof (cases "m < 10")
    case m: True
    show ?thesis
    proof (cases "n < 10")
      case True
      with m "1.prems" show ?thesis
        by (simp add: str_of_nat.simps [of m] str_of_nat.simps [of n] digit_char_inj)
    next
      case False
      with m "1.prems" str_of_nat_nonempty [of "n div 10"] show ?thesis
        by (simp add: str_of_nat.simps [of m] str_of_nat.simps [of n] Cons_eq_append_conv)
    qed
  next
    case m: False
    show ?thesis
    proof (cases "n < 10")
      case True
      with m "1.prems" str_of_nat_nonempty [of "m div 10"] show ?thesis
        by (simp add: str_of_nat.simps [of m] str_of_nat.simps [of n] append_eq_Cons_conv)
    next
      case False
      with m "1.prems" have e: "str_of_nat (m div 10) = str_of_nat (n div 10)"
        and dg: "digit_char (m mod 10) = digit_char (n mod 10)"
        by (simp_all add: str_of_nat.simps [of m] str_of_nat.simps [of n])
      from "1.IH" [OF m e] have "m div 10 = n div 10" .
      moreover from dg have "m mod 10 = n mod 10" by (simp add: digit_char_inj)
      ultimately show ?thesis by (metis div_mult_mod_eq)
    qed
  qed
qed

lemma finite_taken: "finite {k. c \<le> k \<and> base @ str_of_nat k \<in> set (map username d)}"
proof -
  have "inj (\<lambda>k. base @ str_of_nat k)"
    by (auto simp: inj_on_def dest: str_of_nat_inj)
  then have "finite ((\<lambda>k. base @ str_of_nat k) -` set (map username d))"
    by (intro finite_vimageI) simp_all
  then show ?thesis by (rule rev_finite_subset) auto
qed

termination probe_username
proof (relation "measure (\<lambda>(d, base, uname, c).
          card {k. c \<le> k \<and> base @ str_of_nat k \<in> set (map username d)}
          + (if uname \<in> set (map username d) then 1 else 0))")
  show "wf (measure (\<lambda>(d, base, uname, c).
          card {k. c \<le> k \<and> base @ str_of_nat k \<in> set (map username d)}
          + (if uname \<in> set (map username d) then 1 else 0)))" by simp
next
  fix d :: db and base uname :: string and counter :: nat and x2 :: "user option" and existing_user :: user
  assume a: "scalar_one_or_none (filter (\<lambda>u. username u = uname) d) = Inr x2" "x2 = Some existing_user"
  let ?U = "set (map username d)"
  let ?A = "\<lambda>c. {k. c \<le> k \<and> base @ str_of_nat k \<in> ?U}"
  from a have "filter (\<lambda>u. username u = uname) d \<noteq> []" by auto
  then have mem: "uname \<in> ?U"
    by (auto simp: filter_empty_conv)
  have split: "?A counter = ?A (counter + 1) \<union> (if base @ str_of_nat counter \<in> ?U then {counter} else {})"
  proof -
    have "\<And>k. counter \<le> k \<longleftrightarrow> counter + 1 \<le> k \<or> k = counter" by auto
    then show ?thesis by (auto simp: image_iff)
  qed
  have "card (?A counter) = card (?A (counter + 1)) + (if base @ str_of_nat counter \<in> ?U then 1 else 0)"
  proof (cases "base @ str_of_nat counter \<in> ?U")
    case True
    then have "?A counter = insert counter (?A (counter + 1))" using split by auto
    moreover have "counter \<notin> ?A (counter + 1)" by simp
    ultimately show ?thesis using True finite_taken [of "counter + 1" base d] by simp
  next
    case False
    then have "?A counter = ?A (counter + 1)" using split by auto
    then show ?thesis using False by simp
  qed
  with mem show "((d, base, base @ str_of_nat counter, counter + 1), (d, base, uname, counter))
       \<in> measure (\<lambda>(d, base, uname, c).
          card {k. c \<le> k \<and> base @ str_of_nat k \<in> set (map username d)}
          + (if uname \<in> set (map username d) then 1 else 0))"
    by simp
qed

declare probe_username.simps [simp del]

text \<open>
  \<open>register\<close>, lines 49-94: the \<open>USE_KEYCLOAK\<close> branch. Its handler \<open>except Exception\<close>
  turns whatever was raised into a 500.
\<close>

definition register_keycloak ::
  "env \<Rightarrow> register_request \<Rightarrow> string \<Rightarrow> db \<Rightarrow> exn + (db \<times> register_response)" where
  "register_keycloak e rq uname d =
     (case (case create_user_in_keycloak (runtime e) (keycloak_admin e) uname (rr_email rq)
                   (rr_password rq)
                   (Some (rr_first_name rq)) (Some (rr_last_name rq))
                   (rr_date_of_birth rq) (rr_phone_number rq) of
              Inl x \<Rightarrow> Inl x
            | Inr kid \<Rightarrow>
                (case commit_insert d
                        \<lparr>user_id = 0, username = uname, email = rr_email rq, password = [],
                         keycloak_user_id = Some kid, last_synced_at = Some (utcnow e),
                         profile_picture_url = None\<rparr> of
                   Inl x \<Rightarrow> Inl x
                 | Inr (d', u) \<Rightarrow>
                     Inr (d', \<lparr>message = ''User created successfully in Keycloak'',
                               resp_user_id = user_id u,
                               resp_keycloak_user_id = Some kid\<rparr>))) of
        Inl x \<Rightarrow> Inl (HTTPException 500 (''Failed to create user: '' @ exn_str x))
      | Inr r \<Rightarrow> Inr r)"

text \<open>Lines 96-109: the legacy branch.\<close>

definition register_legacy ::
  "env \<Rightarrow> register_request \<Rightarrow> string \<Rightarrow> db \<Rightarrow> exn + (db \<times> register_response)" where
  "register_legacy e rq uname d =
     (case get_password_hash e (rr_password rq) of
        Inl x \<Rightarrow> Inl x
      | Inr hashed_password \<Rightarrow>
          (case commit_insert d
                  \<lparr>user_id = 0, username = uname, email = rr_email rq,
                   password = hashed_password, keycloak_user_id = None,
                   last_synced_at = None, profile_picture_url = None\<rparr> of
             Inl x \<Rightarrow> Inl x
           | Inr (d', u) \<Rightarrow>
               Inr (d', \<lparr>message = ''User created successfully'', resp_user_id = user_id u,
                         resp_keycloak_user_id = None\<rparr>)))"

text \<open>\<open>register\<close> (\<open>auth/controller.py\<close>).\<close>

definition register :: "env \<Rightarrow> register_request \<Rightarrow> db \<Rightarrow> exn + (db \<times> register_response)" where
  "register e rq d =
     (let base = base_username (runtime e) (rr_first_name rq) (rr_last_name rq)
      in case probe_username d base base 1 of
           Inl x \<Rightarrow> Inl x
         | Inr uname \<Rightarrow>
             (case scalar_one_or_none (filter (\<lambda>u. email u = rr_email rq) d) of
                Inl x \<Rightarrow> Inl x
              | Inr (Some existing_email) \<Rightarrow> Inl (HTTPException 400 ''Email already exists'')
              | Inr None \<Rightarrow>
                  if use_keycloak e then register_keycloak e rq uname d
                  else register_legacy e rq uname d))"

section \<open>Sequences of requests\<close>

text \<open>
  The core operations, each served in its own environment. A request that fails leaves
  the database as it was; a login returns a token and writes nothing.
\<close>

datatype request =
    Register register_request
  | Login string string
  | ResolveBearer string
  | ResolveBearerOptional "string option"

fun handle :: "env \<Rightarrow> request \<Rightarrow> db \<Rightarrow> db" where
  "handle e (Register rq) d = (case register e rq d of Inl x \<Rightarrow> d | Inr (d', r) \<Rightarrow> d')"
| "handle e (Login uname pw) d =
     (case login_for_access_token e uname pw d of Inl x \<Rightarrow> d | Inr t \<Rightarrow> d)"
| "handle e (ResolveBearer t) d =
     (case get_current_user e t d of Inl x \<Rightarrow> d | Inr (d', u) \<Rightarrow> d')"
| "handle e (ResolveBearerOptional t) d =
     (case get_current_user_optional e t d of Inl x \<Rightarrow> d | Inr (d', u) \<Rightarrow> d')"

fun run :: "(env \<times> request) list \<Rightarrow> db \<Rightarrow> db" where
  "run [] d = d"
| "run ((e, r) # rs) d = run rs (handle e r d)"

text \<open>The row holding a given primary key.\<close>

definition row_of :: "db \<Rightarrow> nat \<Rightarrow> user option" where
  "row_of d i = find (\<lambda>r. user_id r = i) d"

text \<open>
  \<open>keeps d d'\<close>: the primary keys of \<open>d'\<close> are distinct, and every row of \<open>d\<close> is a row
  of \<open>d'\<close> whose \<open>keycloak_user_id\<close> is the same, or is non-empty where it was null or
  empty before.
\<close>

definition keeps :: "db \<Rightarrow> db \<Rightarrow> bool" where
  "keeps d d' \<longleftrightarrow> distinct (map user_id d') \<and>
     (\<forall>i r. row_of d i = Some r
        \<longrightarrow> (\<exists>r'. row_of d' i = Some r' \<and>
               (keycloak_user_id r' = keycloak_user_id r \<or>
                (\<not> truthy (keycloak_user_id r) \<and> truthy (keycloak_user_id r')))))"

section \<open>Example states\<close>

text \<open>
  Concrete environments and tables on which the properties below are evaluated. All their
  strings are ASCII, so the runtime's tables are never consulted.
\<close>

definition ada_current :: kc_user where
  "ada_current =
     \<lparr>kc_username = Some ''ada.lovelace'', kc_email = Some ''ada@x.io'',
      kc_firstName = Some ''Ada'', kc_lastName = Some ''Lovelace'', kc_enabled = Some True,
      kc_emailVerified = Some False, kc_attributes = None,
      kc_requiredActions = Some [''VERIFY_EMAIL'']\<rparr>"

definition example_runtime :: py_runtime where
  "example_runtime = \<lparr>unicode_lower = (\<lambda>s. s), unicode_capitalize = (\<lambda>s. s)\<rparr>"

definition kc_admin_ok :: kc_admin where
  "kc_admin_ok =
     \<lparr>admin_token = Inr (Some ''admin-token''),
      post_user = (\<lambda>u. Inr (201, Some ''http://kc:8080/admin/realms/linksy/users/u-1'')),
      search_users = (\<lambda>n. Inr (200, [])),
      put_password = (\<lambda>i p. Inr \<lparr>status_code = 204, response_text = []\<rparr>),
      get_user = (\<lambda>i. Inr (200, ada_current)),
      put_user = (\<lambda>i u. Inr \<lparr>status_code = 204, response_text = []\<rparr>)\<rparr>"

definition kc_phase3_fails :: kc_admin where
  "kc_phase3_fails =
     \<lparr>admin_token = Inr (Some ''admin-token''),
      post_user = (\<lambda>u. Inr (201, Some ''http://kc:8080/admin/realms/linksy/users/u-1'')),
      search_users = (\<lambda>n. Inr (200, [])),
      put_password = (\<lambda>i p. Inr \<lparr>status_code = 204, response_text = []\<rparr>),
      get_user = (\<lambda>i. Inr (200, ada_current)),
      put_user = (\<lambda>i u. Inr \<lparr>status_code = 500, response_text = ''Internal Server Error''\<rparr>)\<rparr>"

definition env_of :: "token_info \<Rightarrow> int \<Rightarrow> env" where
  "env_of ti now =
     \<lparr>use_keycloak = True, verify_keycloak_token = (\<lambda>t. Inr ti),
      jwt_decode = (\<lambda>t. Inl (Raised JWTError ''Not enough segments'')), utcnow = now,
      keycloak_admin = kc_admin_ok,
      keycloak_token = (\<lambda>n p. Inl (Raised KeycloakError ''invalid_grant'')),
      bcrypt_checkpw = (\<lambda>p h. Inl (Raised ValueError ''Invalid salt'')),
      bcrypt_hashpw = (\<lambda>p. Inr (''$2b$12$'' @ p)),
      jwt_encode = (\<lambda>n i t. n), runtime = example_runtime\<rparr>"

definition env_legacy :: env where
  "env_legacy =
     \<lparr>use_keycloak = False,
      verify_keycloak_token = (\<lambda>t. Inl (Raised KeycloakError ''Connection refused'')),
      jwt_decode = (\<lambda>t. Inl (Raised JWTError ''Not enough segments'')), utcnow = 2000,
      keycloak_admin = kc_admin_ok,
      keycloak_token = (\<lambda>n p. Inl (Raised KeycloakError ''invalid_grant'')),
      bcrypt_checkpw = (\<lambda>p h. Inl (Raised ValueError ''Invalid salt'')),
      bcrypt_hashpw = (\<lambda>p. Inr (''$2b$12$'' @ p)),
      jwt_encode = (\<lambda>n i t. n), runtime = example_runtime\<rparr>"

definition idp_down :: env where
  "idp_down = \<lparr>use_keycloak = True,
      verify_keycloak_token = (\<lambda>t. Inl (Raised KeycloakError ''Connection refused'')),
      jwt_decode = (\<lambda>t. Inl (Raised JWTError ''Not enough segments'')), utcnow = 2000,
      keycloak_admin = kc_admin_ok,
      keycloak_token = (\<lambda>n p. Inl (Raised KeycloakError ''invalid_grant'')),
      bcrypt_checkpw = (\<lambda>p h. Inl (Raised ValueError ''Invalid salt'')),
      bcrypt_hashpw = (\<lambda>p. Inr (''$2b$12$'' @ p)),
      jwt_encode = (\<lambda>n i t. n), runtime = example_runtime\<rparr>"

definition grace_row :: user where
  "grace_row = \<lparr>user_id = 1, username = ''grace'', email = ''grace@x.io'', password = [],
      keycloak_user_id = Some ''abc'', last_synced_at = Some 1000, profile_picture_url = None\<rparr>"

definition grace_h_row :: user where
  "grace_h_row = \<lparr>user_id = 2, username = ''grace.h'', email = ''h@x.io'', password = [],
      keycloak_user_id = Some ''xyz'', last_synced_at = Some 1000, profile_picture_url = None\<rparr>"

definition empty_id_row :: user where
  "empty_id_row = \<lparr>user_id = 1, username = ''grace'', email = ''grace@x.io'', password = [],
      keycloak_user_id = Some [], last_synced_at = None, profile_picture_url = None\<rparr>"

definition legacy_row :: user where
  "legacy_row = \<lparr>user_id = 1, username = ''grace'', email = ''grace@x.io'',
      password = ''$2b$12$p4ssw0rd!'', keycloak_user_id = None, last_synced_at = None,
      profile_picture_url = None\<rparr>"

definition unlinked_row :: user where
  "unlinked_row = \<lparr>user_id = 1, username = ''grace'', email = ''grace@x.io'', password = [],
      keycloak_user_id = None, last_synced_at = Some 2000, profile_picture_url = None\<rparr>"

definition drift_claims :: token_info where
  "drift_claims = \<lparr>ti_keycloak_user_id = Some ''abc'', ti_preferred_username = Some ''grace.h'',
      ti_email = Some ''grace.h@x.io'', ti_active = True\<rparr>"

definition jit_claims :: token_info where
  "jit_claims = \<lparr>ti_keycloak_user_id = Some ''abc'', ti_preferred_username = Some ''grace'',
      ti_email = None, ti_active = True\<rparr>"

definition grace_claims :: token_info where
  "grace_claims = \<lparr>ti_keycloak_user_id = Some ''abc'', ti_preferred_username = Some ''grace'',
      ti_email = Some ''grace@x.io'', ti_active = True\<rparr>"

definition other_claims :: token_info where
  "other_claims = \<lparr>ti_keycloak_user_id = Some ''different'', ti_preferred_username = Some ''grace'',
      ti_email = None, ti_active = True\<rparr>"

definition jit_row :: user where
  "jit_row = \<lparr>user_id = 1, username = ''grace'', email = ''grace@keycloak.local'', password = [],
      keycloak_user_id = Some ''abc'', last_synced_at = Some 2000, profile_picture_url = None\<rparr>"

definition john :: "string \<Rightarrow> register_request" where
  "john em = \<lparr>rr_email = em, rr_password = ''p4ssw0rd!'', rr_first_name = ''John'',
      rr_last_name = ''Doe'', rr_date_of_birth = None, rr_phone_number = None\<rparr>"

definition john_rows :: db where
  "john_rows =
     [\<lparr>user_id = 1, username = ''john.doe'', email = ''a@x.io'', password = ''$2b$12$p4ssw0rd!'',
       keycloak_user_id = None, last_synced_at = None, profile_picture_url = None\<rparr>,
      \<lparr>user_id = 2, username = ''john.doe1'', email = ''b@x.io'', password = ''$2b$12$p4ssw0rd!'',
       keycloak_user_id = None, last_synced_at = None, profile_picture_url = None\<rparr>]"

section \<open>Auxiliary facts about the session and the lookups\<close>

lemma scalar_one_or_none_Some: "scalar_one_or_none xs = Inr (Some u) \<longleftrightarrow> xs = [u]"
  by (cases xs rule: scalar_one_or_none.cases) auto

lemma scalar_one_or_none_None: "scalar_one_or_none xs = Inr None \<longleftrightarrow> xs = []"
  by (cases xs rule: scalar_one_or_none.cases) auto

lemma lookup_user_None:
  "lookup_user d kid uname = Inr None \<longleftrightarrow>
     filter (\<lambda>u. keycloak_user_id u = Some kid) d = [] \<and> filter (\<lambda>u. username u = uname) d = []"
  by (auto simp: lookup_user_def scalar_one_or_none_None scalar_one_or_none_Some split: sum.splits option.splits)

lemma lookup_user_Some:
  "lookup_user d kid uname = Inr (Some u) \<longleftrightarrow>
     filter (\<lambda>u. keycloak_user_id u = Some kid) d = [u] \<or>
     (filter (\<lambda>u. keycloak_user_id u = Some kid) d = [] \<and> filter (\<lambda>u. username u = uname) d = [u])"
  by (auto simp: lookup_user_def scalar_one_or_none_None scalar_one_or_none_Some split: sum.splits option.splits)

lemma filter_single_mem: "filter P xs = [u] \<Longrightarrow> u \<in> set xs \<and> P u"
proof -
  assume a: "filter P xs = [u]"
  have "u \<in> set (filter P xs)" by (simp add: a)
  then show ?thesis by simp
qed

lemma lookup_user_mem: "lookup_user d kid uname = Inr (Some u) \<Longrightarrow> u \<in> set d"
  using filter_single_mem by (fastforce simp: lookup_user_Some)

lemma commit_insert_Inr:
  "commit_insert d u = Inr (d', u') \<Longrightarrow> u' = u\<lparr>user_id := next_id d\<rparr> \<and> d' = d @ [u'] \<and> \<not> conflicts d u'"
  by (auto simp: commit_insert_def Let_def split: if_splits)

lemma sync_existing_kc:
  "sync_existing now d u kid uname em = Inr (d', u') \<Longrightarrow>
     keycloak_user_id u' = (if truthy (keycloak_user_id u) then keycloak_user_id u else Some kid)
     \<and> user_id u' = user_id u \<and> map user_id d' = map user_id d"
  by (auto simp: sync_existing_def Let_def upgrade_id_def synced_def commit_update_def split: if_splits)

lemma resolve_keycloak_Inr:
  assumes "resolve_keycloak e tok d = Inr (d', u)"
  obtains ti kid uname where "verify_keycloak_token e tok = Inr ti" "ti_active ti"
    "ti_preferred_username ti = Some uname" "uname \<noteq> []" "ti_keycloak_user_id ti = Some kid" "kid \<noteq> []"
    "(lookup_user d kid uname = Inr None \<and> commit_insert d (new_user (utcnow e) kid uname (ti_email ti)) = Inr (d', u))
     \<or> (\<exists>u0. lookup_user d kid uname = Inr (Some u0) \<and> sync_existing (utcnow e) d u0 kid uname (ti_email ti) = Inr (d', u))"
  using assms unfolding resolve_keycloak_def
  by (auto split: sum.splits if_splits option.splits prod.splits)

section \<open>Which row a bearer token resolves to\<close>

text \<open>
  C1 (as stated, refuted): the specification says that a token whose \<open>sub\<close> matches no
  row but whose \<open>preferred_username\<close> matches a row that already holds another
  \<open>keycloak_user_id\<close> provisions a new row. On the table holding the single row
  \<open>grace\<close> with id \<open>abc\<close>, the token \<open>{sub: different, preferred_username: grace}\<close>
  resolves to that very row: the table still has one row, the returned user holds
  \<open>abc\<close> and not \<open>different\<close>.
\<close>

theorem C1_counterexample:
  "get_current_user
     (env_of \<lparr>ti_keycloak_user_id = Some ''different'', ti_preferred_username = Some ''grace'',
              ti_email = None, ti_active = True\<rparr> 2000)
     ''token'' [grace_row]
   = Inr ([grace_row\<lparr>last_synced_at := Some 2000\<rparr>], grace_row\<lparr>last_synced_at := Some 2000\<rparr>)
   \<and> keycloak_user_id (grace_row\<lparr>last_synced_at := Some 2000\<rparr>) = Some ''abc''"
  by (simp add: get_current_user_def resolve_keycloak_def env_of_def grace_row_def lookup_user_def
      sync_existing_def upgrade_id_def should_sync_def synced_def commit_update_def conflicts_def)

text \<open>
  C1 (amended): when \<open>get_current_user\<close> returns a user in Keycloak mode, the claims
  carry a \<open>sub\<close> and a \<open>preferred_username\<close>, and the returned user's
  \<open>keycloak_user_id\<close> is the \<open>sub\<close> in every case but one: no row holds the \<open>sub\<close>
  and the row with the claimed username already holds a non-empty \<open>keycloak_user_id\<close>.
  Then that row is returned with its own, different \<open>keycloak_user_id\<close>, and the table
  keeps its rows (no row is inserted).
\<close>

theorem C1_returned_federated_id:
  assumes "use_keycloak e" and "verify_keycloak_token e tok = Inr ti"
    and "get_current_user e tok d = Inr (d', u)"
  shows "\<exists>kid uname. ti_keycloak_user_id ti = Some kid \<and> ti_preferred_username ti = Some uname \<and>
     (if filter (\<lambda>r. keycloak_user_id r = Some kid) d = [] \<and>
         (\<exists>r. filter (\<lambda>r. username r = uname) d = [r] \<and> truthy (keycloak_user_id r))
      then \<exists>r. filter (\<lambda>r. username r = uname) d = [r] \<and> keycloak_user_id u = keycloak_user_id r
             \<and> keycloak_user_id u \<noteq> Some kid \<and> user_id u = user_id r
             \<and> map user_id d' = map user_id d
      else keycloak_user_id u = Some kid)"
proof -
  from assms have r: "resolve_keycloak e tok d = Inr (d', u)"
    by (simp add: get_current_user_def split: sum.splits)
  from r obtain ti' kid uname where v: "verify_keycloak_token e tok = Inr ti'"
    and un: "ti_preferred_username ti' = Some uname" and k: "ti_keycloak_user_id ti' = Some kid"
    and kne: "kid \<noteq> []"
    and c: "(lookup_user d kid uname = Inr None \<and>
             commit_insert d (new_user (utcnow e) kid uname (ti_email ti')) = Inr (d', u))
         \<or> (\<exists>u0. lookup_user d kid uname = Inr (Some u0) \<and>
             sync_existing (utcnow e) d u0 kid uname (ti_email ti') = Inr (d', u))"
    by (rule resolve_keycloak_Inr) blast
  from v assms(2) have [simp]: "ti' = ti" by simp
  let ?byid = "filter (\<lambda>r. keycloak_user_id r = Some kid) d"
  let ?byname = "filter (\<lambda>r. username r = uname) d"
  from c have "if ?byid = [] \<and> (\<exists>r. ?byname = [r] \<and> truthy (keycloak_user_id r))
      then \<exists>r. ?byname = [r] \<and> keycloak_user_id u = keycloak_user_id r
             \<and> keycloak_user_id u \<noteq> Some kid \<and> user_id u = user_id r
             \<and> map user_id d' = map user_id d
      else keycloak_user_id u = Some kid"
  proof
    assume a: "lookup_user d kid uname = Inr None \<and>
             commit_insert d (new_user (utcnow e) kid uname (ti_email ti')) = Inr (d', u)"
    then have "?byname = []" by (simp add: lookup_user_None)
    moreover from a have "keycloak_user_id u = Some kid"
      by (auto simp: commit_insert_def Let_def new_user_def split: if_splits)
    ultimately show ?thesis by simp
  next
    assume "\<exists>u0. lookup_user d kid uname = Inr (Some u0) \<and>
             sync_existing (utcnow e) d u0 kid uname (ti_email ti') = Inr (d', u)"
    then obtain u0 where l: "lookup_user d kid uname = Inr (Some u0)"
      and s: "sync_existing (utcnow e) d u0 kid uname (ti_email ti') = Inr (d', u)" by blast
    note kc = sync_existing_kc [OF s]
    from l consider (byid) "?byid = [u0]" | (byname) "?byid = []" "?byname = [u0]"
      by (auto simp: lookup_user_Some)
    then show ?thesis
    proof cases
      case byid
      then have "keycloak_user_id u0 = Some kid" using filter_single_mem by fastforce
      with kc kne byid show ?thesis by simp
    next
      case byname
      show ?thesis
      proof (cases "truthy (keycloak_user_id u0)")
        case True
        from byname(2) have "u0 \<in> set d" using filter_single_mem by fastforce
        with byname(1) have "keycloak_user_id u0 \<noteq> Some kid"
          by (auto simp: filter_empty_conv)
        with True kc byname show ?thesis by simp
      next
        case False
        with kc byname show ?thesis by simp
      qed
    qed
  qed
  with un k show ?thesis by simp
qed

text \<open>
  C1, evaluated on the table and the token of the counterexample: the hypotheses hold there
  and the exceptional case is the one that applies.
\<close>

theorem C1_returned_federated_id_witness:
  "\<exists>kid uname. Some ''different'' = Some kid \<and> Some ''grace'' = Some uname \<and>
     (if filter (\<lambda>r. keycloak_user_id r = Some kid) [grace_row] = [] \<and>
         (\<exists>r. filter (\<lambda>r. username r = uname) [grace_row] = [r] \<and> truthy (keycloak_user_id r))
      then \<exists>r. filter (\<lambda>r. username r = uname) [grace_row] = [r]
             \<and> keycloak_user_id (grace_row\<lparr>last_synced_at := Some 2000\<rparr>) = keycloak_user_id r
             \<and> keycloak_user_id (grace_row\<lparr>last_synced_at := Some 2000\<rparr>) \<noteq> Some kid
             \<and> user_id (grace_row\<lparr>last_synced_at := Some 2000\<rparr>) = user_id r
             \<and> map user_id [grace_row\<lparr>last_synced_at := Some 2000\<rparr>] = map user_id [grace_row]
      else keycloak_user_id (grace_row\<lparr>last_synced_at := Some 2000\<rparr>) = Some kid)"
  using C1_returned_federated_id [of
      "env_of \<lparr>ti_keycloak_user_id = Some ''different'', ti_preferred_username = Some ''grace'',
              ti_email = None, ti_active = True\<rparr> 2000"
      "''token''"
      "\<lparr>ti_keycloak_user_id = Some ''different'', ti_preferred_username = Some ''grace'',
              ti_email = None, ti_active = True\<rparr>"
      "[grace_row]" "[grace_row\<lparr>last_synced_at := Some 2000\<rparr>]" "grace_row\<lparr>last_synced_at := Some 2000\<rparr>"]
  by (simp add: get_current_user_def resolve_keycloak_def env_of_def grace_row_def lookup_user_def
      sync_existing_def upgrade_id_def should_sync_def synced_def commit_update_def conflicts_def)

section \<open>Provisioning a user in the identity provider\<close>

lemma last_segment_ex: "last_segment ''http://kc:8080/admin/realms/linksy/users/u-1'' = ''u-1''"
  by (simp add: last_segment_def)

text \<open>
  C2 (as stated, refuted): the specification says that provisioning succeeds only if the
  finalizing PUT returns a 2xx status. With an identity provider that creates the user
  \<open>u-1\<close>, accepts the password and answers the finalizing PUT with status 500,
  \<open>create_user_in_keycloak\<close> returns \<open>u-1\<close> as a success.
\<close>

theorem C2_counterexample:
  "put_user kc_phase3_fails ''u-1'' (update_data example_runtime ''ada.lovelace'' ada_current)
     = Inr \<lparr>status_code = 500, response_text = ''Internal Server Error''\<rparr>
   \<and> create_user_in_keycloak example_runtime kc_phase3_fails ''ada.lovelace'' ''ada@x.io'' ''p4ssw0rd!''
        (Some ''Ada'') (Some ''Lovelace'') None None = Inr ''u-1''"
  by (simp add: create_user_in_keycloak_def kc_phase3_fails_def raise_for_status_def
      recover_user_id_def last_segment_ex set_password_def finalize_user_def)

text \<open>
  C2 (amended): once the creating POST has succeeded, the id \<open>uid\<close> has been recovered and
  the password PUT has returned a response, \<open>create_user_in_keycloak\<close>
  \<^item> returns \<open>uid\<close> whenever the password PUT answered 200 or 204 and the GET and the
    finalizing PUT returned a response at all, whatever their status codes;
  \<^item> raises a plain exception whose message holds the username, the status code and the
    response text (and not the id) when the password PUT answered anything else;
  \<^item> returns an id only if the password PUT answered 200 or 204, and then it is \<open>uid\<close>.
\<close>

theorem C2_provision_outcome:
  assumes "admin_token k = Inr tok"
    and "post_user k (user_data_no_password rt uname em first_name last_name dob phone) = Inr (s, location)"
    and "raise_for_status s = Inr ()"
    and "recover_user_id k uname location = Inr uid"
    and "put_password k uid pw = Inr r2"
  shows "((status_code r2 = 200 \<or> status_code r2 = 204) \<and> get_user k uid = Inr (gs, cur)
            \<and> (gs = 200 \<longrightarrow> put_user k uid (update_data rt uname cur) = Inr r3)
          \<longrightarrow> create_user_in_keycloak rt k uname em pw first_name last_name dob phone = Inr uid)
       \<and> (status_code r2 \<noteq> 200 \<and> status_code r2 \<noteq> 204
          \<longrightarrow> create_user_in_keycloak rt k uname em pw first_name last_name dob phone
              = Inl (Raised PlainException
                  (''Failed to set password for user '' @ uname @ '': '' @
                   str_of_nat (status_code r2) @ '' - '' @ response_text r2)))
       \<and> (\<forall>uid'. create_user_in_keycloak rt k uname em pw first_name last_name dob phone = Inr uid'
          \<longrightarrow> (status_code r2 = 200 \<or> status_code r2 = 204) \<and> uid' = uid)"
proof -
  have c: "create_user_in_keycloak rt k uname em pw first_name last_name dob phone =
      (case set_password k uname pw uid of Inl x \<Rightarrow> Inl x | Inr _ \<Rightarrow> finalize_user rt k uname uid)"
    using assms(1-4) by (simp add: create_user_in_keycloak_def)
  have sp: "set_password k uname pw uid =
      (if status_code r2 \<noteq> 200 \<and> status_code r2 \<noteq> 204
       then Inl (Raised PlainException
                  (''Failed to set password for user '' @ uname @ '': '' @
                   str_of_nat (status_code r2) @ '' - '' @ response_text r2))
       else Inr ())"
    using assms(5) by (simp add: set_password_def)
  have fin: "\<And>uid'. finalize_user rt k uname uid = Inr uid' \<Longrightarrow> uid' = uid"
    by (auto simp: finalize_user_def split: sum.splits prod.splits if_splits)
  have a: "(status_code r2 = 200 \<or> status_code r2 = 204) \<and> get_user k uid = Inr (gs, cur)
            \<and> (gs = 200 \<longrightarrow> put_user k uid (update_data rt uname cur) = Inr r3)
          \<longrightarrow> create_user_in_keycloak rt k uname em pw first_name last_name dob phone = Inr uid"
    by (auto simp: c sp finalize_user_def)
  have b: "status_code r2 \<noteq> 200 \<and> status_code r2 \<noteq> 204
          \<longrightarrow> create_user_in_keycloak rt k uname em pw first_name last_name dob phone
              = Inl (Raised PlainException
                  (''Failed to set password for user '' @ uname @ '': '' @
                   str_of_nat (status_code r2) @ '' - '' @ response_text r2))"
    by (simp add: c sp)
  have d: "\<forall>uid'. create_user_in_keycloak rt k uname em pw first_name last_name dob phone = Inr uid'
          \<longrightarrow> (status_code r2 = 200 \<or> status_code r2 = 204) \<and> uid' = uid"
    using fin by (auto simp: c sp split: if_splits)
  from a b d show ?thesis by blast
qed

text \<open>
  C2, evaluated on the identity provider of the counterexample: every hypothesis holds
  there (status 201 for the POST, 204 for the password, 200 for the GET, 500 for the
  finalizing PUT) and the call returns \<open>u-1\<close>.
\<close>

theorem C2_provision_outcome_witness:
  "create_user_in_keycloak example_runtime kc_phase3_fails ''ada.lovelace'' ''ada@x.io'' ''p4ssw0rd!''
        (Some ''Ada'') (Some ''Lovelace'') None None = Inr ''u-1''"
proof -
  have 1: "admin_token kc_phase3_fails = Inr (Some ''admin-token'')"
    by (simp add: kc_phase3_fails_def)
  have 2: "post_user kc_phase3_fails
        (user_data_no_password example_runtime ''ada.lovelace'' ''ada@x.io'' (Some ''Ada'') (Some ''Lovelace'') None None)
      = Inr (201, Some ''http://kc:8080/admin/realms/linksy/users/u-1'')"
    by (simp add: kc_phase3_fails_def)
  have 3: "raise_for_status 201 = Inr ()" by (simp add: raise_for_status_def)
  have 4: "recover_user_id kc_phase3_fails ''ada.lovelace''
        (Some ''http://kc:8080/admin/realms/linksy/users/u-1'') = Inr ''u-1''"
    by (simp add: recover_user_id_def last_segment_ex)
  have 5: "put_password kc_phase3_fails ''u-1'' ''p4ssw0rd!'' = Inr \<lparr>status_code = 204, response_text = []\<rparr>"
    by (simp add: kc_phase3_fails_def)
  have 6: "get_user kc_phase3_fails ''u-1'' = Inr (200, ada_current)"
    by (simp add: kc_phase3_fails_def)
  have 7: "put_user kc_phase3_fails ''u-1'' (update_data example_runtime ''ada.lovelace'' ada_current)
     = Inr \<lparr>status_code = 500, response_text = ''Internal Server Error''\<rparr>"
    by (simp add: kc_phase3_fails_def)
  have p: "(status_code \<lparr>status_code = 204, response_text = []\<rparr> = 200
            \<or> status_code \<lparr>status_code = 204, response_text = []\<rparr> = 204)
      \<and> get_user kc_phase3_fails ''u-1'' = Inr (200, ada_current)
      \<and> ((200::nat) = 200 \<longrightarrow> put_user kc_phase3_fails ''u-1'' (update_data example_runtime ''ada.lovelace'' ada_current)
            = Inr \<lparr>status_code = 500, response_text = ''Internal Server Error''\<rparr>)"
    using 6 7 by simp
  from mp [OF conjunct1 [OF C2_provision_outcome [OF 1 2 3 4 5]] p]
  show ?thesis .
qed

section \<open>A unique violation during a sync\<close>

text \<open>
  C3 (as stated, refuted): the specification says that a unique violation during the sync
  is not fatal. The row \<open>grace\<close> (id \<open>abc\<close>) is stale and the claims rename it to
  \<open>grace.h\<close>, a username another row holds: the write conflicts and the call fails
  with the 401.
\<close>

theorem C3_counterexample:
  "conflicts [grace_row, grace_h_row] (synced 2000 grace_row ''grace.h'' (Some ''grace.h@x.io''))
   \<and> get_current_user (env_of drift_claims 2000) ''token'' [grace_row, grace_h_row]
       = Inl (HTTPException 401 ''Could not validate user.'')"
  by (simp add: get_current_user_def resolve_keycloak_def env_of_def grace_row_def grace_h_row_def
      drift_claims_def lookup_user_def
      sync_existing_def upgrade_id_def should_sync_def synced_def commit_update_def conflicts_def)

text \<open>
  C3 (amended): in Keycloak mode, when the token is active, a candidate row is found, the
  row is to be synced and the synced row collides with another row on a unique column, the
  sync raises the integrity error of its commit, and \<open>get_current_user\<close> raises HTTP 401
  "Could not validate user." instead of returning the user.
\<close>

theorem C3_unique_violation_fails:
  assumes "use_keycloak e" and "verify_keycloak_token e tok = Inr ti" and "ti_active ti"
    and "ti_preferred_username ti = Some uname" and "uname \<noteq> []"
    and "ti_keycloak_user_id ti = Some kid" and "kid \<noteq> []"
    and "lookup_user d kid uname = Inr (Some u)"
    and "should_sync (utcnow e) (upgrade_id u kid) uname (ti_email ti)"
    and "conflicts d (synced (utcnow e) (upgrade_id u kid) uname (ti_email ti))"
  shows "(\<exists>m. sync_existing (utcnow e) d u kid uname (ti_email ti) = Inl (Raised IntegrityError m))
       \<and> get_current_user e tok d = Inl (HTTPException 401 ''Could not validate user.'')"
proof -
  from assms(9,10)
  have s: "sync_existing (utcnow e) d u kid uname (ti_email ti)
             = Inl (Raised IntegrityError ''UNIQUE constraint failed'')"
    by (simp add: sync_existing_def commit_update_def)
  from assms(2-8) have "resolve_keycloak e tok d = sync_existing (utcnow e) d u kid uname (ti_email ti)"
    by (simp add: resolve_keycloak_def)
  with s assms(1) have "get_current_user e tok d = Inl (HTTPException 401 ''Could not validate user.'')"
    by (simp add: get_current_user_def)
  with s show ?thesis by blast
qed

text \<open>
  C3, evaluated on the table and the token of the counterexample.
\<close>

theorem C3_unique_violation_fails_witness:
  "get_current_user (env_of drift_claims 2000) ''token'' [grace_row, grace_h_row]
     = Inl (HTTPException 401 ''Could not validate user.'')"
  by (rule conjunct2 [OF C3_unique_violation_fails [where ti = drift_claims
        and uname = "''grace.h''" and kid = "''abc''" and u = grace_row]])
     (simp_all add: env_of_def grace_row_def grace_h_row_def
      drift_claims_def lookup_user_def upgrade_id_def should_sync_def synced_def conflicts_def)

section \<open>Just-in-time provisioning\<close>

text \<open>
  C4 (as stated, refuted): the specification names the placeholder
  \<open>{username}@federated.local\<close>. On the empty table, the token
  \<open>{sub: abc, preferred_username: grace}\<close> without an email claim inserts a row whose
  email is \<open>grace@keycloak.local\<close>.
\<close>

theorem C4_counterexample:
  "get_current_user (env_of jit_claims 2000) ''token'' [] = Inr ([jit_row], jit_row)
   \<and> email jit_row \<noteq> ''grace'' @ ''@federated.local''"
  by (simp add: get_current_user_def resolve_keycloak_def env_of_def jit_claims_def jit_row_def
      lookup_user_def new_user_def commit_insert_def conflicts_def next_id_def Let_def)

text \<open>
  C4 (amended): in Keycloak mode, when no row holds the claimed \<open>sub\<close> or the claimed
  username, the email claim is empty and \<open>get_current_user\<close> returns a user, that user
  is the one row appended to the table, with the claimed username, the email
  \<open>{username}@keycloak.local\<close>, the empty password, the claimed \<open>sub\<close> as
  \<open>keycloak_user_id\<close> and \<open>last_synced_at\<close> equal to the clock reading.
\<close>

theorem C4_jit_row:
  assumes "use_keycloak e" and "verify_keycloak_token e tok = Inr ti"
    and "ti_preferred_username ti = Some uname" and "ti_keycloak_user_id ti = Some kid"
    and "\<forall>r \<in> set d. keycloak_user_id r \<noteq> Some kid \<and> username r \<noteq> uname"
    and "\<not> truthy (ti_email ti)"
    and "get_current_user e tok d = Inr (d', u)"
  shows "username u = uname \<and> email u = uname @ ''@keycloak.local'' \<and> password u = []
         \<and> keycloak_user_id u = Some kid \<and> last_synced_at u = Some (utcnow e) \<and> d' = d @ [u]"
proof -
  from assms(5) have l: "lookup_user d kid uname = Inr None"
    by (auto simp: lookup_user_None filter_empty_conv)
  from assms(6) have em: "or_else (ti_email ti) (uname @ ''@keycloak.local'') = uname @ ''@keycloak.local''"
    by (cases "ti_email ti") auto
  from assms(1,7) have "resolve_keycloak e tok d = Inr (d', u)"
    by (simp add: get_current_user_def split: sum.splits)
  with assms(2,3,4) l
  have "commit_insert d (new_user (utcnow e) kid uname (ti_email ti)) = Inr (d', u)"
    by (simp add: resolve_keycloak_def split: if_splits)
  then show ?thesis using em
    by (auto simp: commit_insert_def Let_def new_user_def split: if_splits)
qed

text \<open>
  C4, evaluated on the empty table and the token of the counterexample.
\<close>

theorem C4_jit_row_witness:
  "username jit_row = ''grace'' \<and> email jit_row = ''grace'' @ ''@keycloak.local''
   \<and> password jit_row = [] \<and> keycloak_user_id jit_row = Some ''abc''
   \<and> last_synced_at jit_row = Some (utcnow (env_of jit_claims 2000)) \<and> [jit_row] = [] @ [jit_row]"
  by (rule C4_jit_row [where e = "env_of jit_claims 2000" and tok = "''token''" and ti = jit_claims
        and d = "[]"])
     (simp_all add: get_current_user_def resolve_keycloak_def env_of_def jit_claims_def jit_row_def
      lookup_user_def new_user_def commit_insert_def conflicts_def next_id_def Let_def)

section \<open>The staleness policy\<close>

text \<open>
  C5 (as stated, refuted): the specification says an empty email claim alone never makes
  \<open>should_sync\<close> true. A row synced at this very instant, with the claimed username and
  an absent email claim, is nevertheless marked for sync by the code.
\<close>

theorem C5_should_sync_counterexample:
  "should_sync 1000
     \<lparr>user_id = 1, username = ''grace'', email = ''grace@x.io'', password = '''',
      keycloak_user_id = Some ''abc'', last_synced_at = Some 1000,
      profile_picture_url = None\<rparr> ''grace'' None
   \<and> \<not> should_sync_spec 1000
     \<lparr>user_id = 1, username = ''grace'', email = ''grace@x.io'', password = '''',
      keycloak_user_id = Some ''abc'', last_synced_at = Some 1000,
      profile_picture_url = None\<rparr> ''grace'' None"
  by (simp add: should_sync_def should_sync_spec_def)

text \<open>
  C5 (amended): \<open>should_sync\<close> is true exactly when \<open>last_synced_at\<close> is null, or more
  than 86400 seconds have passed since it, or the stored username differs from the claimed
  one, or the stored email differs from the email claim as presented (an absent claim
  differs from every stored email).
\<close>

theorem C5_should_sync_amended:
  "should_sync now u uname em \<longleftrightarrow>
     last_synced_at u = None
     \<or> (\<exists>t. last_synced_at u = Some t \<and> now - t > 86400 * 1000000)
     \<or> username u \<noteq> uname
     \<or> Some (email u) \<noteq> em"
  by (cases "last_synced_at u") (auto simp: should_sync_def)

text \<open>
  C5, evaluated on the row and the claims of the counterexample.
\<close>

theorem C5_should_sync_amended_witness:
  "should_sync 1000 grace_row ''grace'' None"
  using C5_should_sync_amended [of 1000 grace_row "''grace''" None]
  by (simp add: grace_row_def)

section \<open>The generated username\<close>











lemma register_Inr:
  assumes "register e rq d = Inr (d', resp)"
  shows "\<exists>uname u. probe_username d (base_username (runtime e) (rr_first_name rq) (rr_last_name rq))
                     (base_username (runtime e) (rr_first_name rq) (rr_last_name rq)) 1 = Inr uname
         \<and> d' = d @ [u] \<and> username u = uname \<and> user_id u = next_id d \<and> \<not> conflicts d u"
proof -
  let ?b = "base_username (runtime e) (rr_first_name rq) (rr_last_name rq)"
  from assms obtain uname where p: "probe_username d ?b ?b 1 = Inr uname"
    and r: "(if use_keycloak e then register_keycloak e rq uname d else register_legacy e rq uname d)
             = Inr (d', resp)"
  proof -
    assume th: "\<And>uname. probe_username d ?b ?b 1 = Inr uname \<Longrightarrow>
       (if use_keycloak e then register_keycloak e rq uname d else register_legacy e rq uname d)
             = Inr (d', resp) \<Longrightarrow> thesis"
    show thesis
    proof (cases "probe_username d ?b ?b 1")
      case (Inl x)
      with assms show ?thesis by (simp add: register_def Let_def)
    next
      case (Inr uname)
      show ?thesis
      proof (cases "scalar_one_or_none (filter (\<lambda>u. email u = rr_email rq) d)")
        case (Inl x)
        with assms Inr show ?thesis by (simp add: register_def Let_def)
      next
        case em: (Inr o1)
        show ?thesis
        proof (cases o1)
          case None
          with assms Inr em show ?thesis by (intro th [of uname]) (simp_all add: register_def Let_def)
        next
          case (Some a)
          with assms Inr em show ?thesis by (simp add: register_def Let_def)
        qed
      qed
    qed
  qed
  have "\<exists>u0 u. commit_insert d u0 = Inr (d', u) \<and> username u0 = uname"
  proof (cases "use_keycloak e")
    case True
    with r have rk: "register_keycloak e rq uname d = Inr (d', resp)" by simp
    show ?thesis
    proof (cases "create_user_in_keycloak (runtime e) (keycloak_admin e) uname (rr_email rq)
                   (rr_password rq)
                   (Some (rr_first_name rq)) (Some (rr_last_name rq))
                   (rr_date_of_birth rq) (rr_phone_number rq)")
      case (Inl x)
      with rk show ?thesis by (simp add: register_keycloak_def)
    next
      case (Inr kid)
      let ?row = "\<lparr>user_id = 0, username = uname, email = rr_email rq, password = [],
                         keycloak_user_id = Some kid, last_synced_at = Some (utcnow e),
                         profile_picture_url = None\<rparr>"
      show ?thesis
      proof (cases "commit_insert d ?row")
        case (Inl x)
        with rk Inr show ?thesis by (simp add: register_keycloak_def)
      next
        case ci: (Inr pr)
        obtain d2 u2 where pr: "pr = (d2, u2)" by (cases pr)
        with rk Inr ci have "d2 = d'" by (simp add: register_keycloak_def)
        with ci pr have "commit_insert d ?row = Inr (d', u2) \<and> username ?row = uname" by simp
        then show ?thesis by blast
      qed
    qed
  next
    case False
    with r have rl: "register_legacy e rq uname d = Inr (d', resp)" by simp
    show ?thesis
    proof (cases "get_password_hash e (rr_password rq)")
      case (Inl x)
      with rl show ?thesis by (simp add: register_legacy_def)
    next
      case (Inr h)
      let ?row = "\<lparr>user_id = 0, username = uname, email = rr_email rq,
                   password = h, keycloak_user_id = None,
                   last_synced_at = None, profile_picture_url = None\<rparr>"
      show ?thesis
      proof (cases "commit_insert d ?row")
        case (Inl x)
        with rl Inr show ?thesis by (simp add: register_legacy_def)
      next
        case ci: (Inr pr)
        obtain d2 u2 where pr: "pr = (d2, u2)" by (cases pr)
        with rl Inr ci have "d2 = d'" by (simp add: register_legacy_def)
        with ci pr have "commit_insert d ?row = Inr (d', u2) \<and> username ?row = uname" by simp
        then show ?thesis by blast
      qed
    qed
  qed
  then obtain u0 u where c: "commit_insert d u0 = Inr (d', u)" and n: "username u0 = uname" by blast
  from commit_insert_Inr [OF c] have "u = u0\<lparr>user_id := next_id d\<rparr>" "d' = d @ [u]" "\<not> conflicts d u"
    by blast+
  with n p show ?thesis by (intro exI [of _ uname] exI [of _ u]) simp
qed




lemma probe_john_rows:
  "probe_username john_rows (base_username example_runtime ''John'' ''Doe'')
       (base_username example_runtime ''John'' ''Doe'') 1
     = Inr ''john.doe2''"
  by code_simp

lemma register_three_times:
  "map username (run [(env_legacy, Register (john ''a@x.io'')), (env_legacy, Register (john ''b@x.io'')),
                      (env_legacy, Register (john ''c@x.io''))] [])
     = [''john.doe'', ''john.doe1'', ''john.doe2'']"
  by code_simp

section \<open>The federated id of a row never changes once it is set\<close>

lemma fold_max_ge: "a \<le> fold max xs (a::nat) \<and> (\<forall>x \<in> set xs. x \<le> fold max xs a)"
proof (induction xs arbitrary: a)
  case Nil
  then show ?case by simp
next
  case (Cons y ys)
  from Cons.IH [of "max y a"] show ?case by auto
qed

lemma next_id_fresh: "next_id d \<notin> set (map user_id d)"
proof
  assume "next_id d \<in> set (map user_id d)"
  with fold_max_ge [of 0 "map user_id d"] have "next_id d \<le> fold max (map user_id d) 0" by blast
  then show False by (simp add: next_id_def)
qed

lemma row_of_append:
  "row_of d i = Some r \<Longrightarrow> row_of (d @ [u]) i = Some r"
  by (induction d) (auto simp: row_of_def)

lemma row_of_mem: "row_of d i = Some r \<Longrightarrow> r \<in> set d \<and> user_id r = i"
  by (induction d) (auto simp: row_of_def split: if_splits)

lemma row_of_unique:
  "distinct (map user_id d) \<Longrightarrow> u \<in> set d \<Longrightarrow> row_of d (user_id u) = Some u"
  by (induction d) (auto simp: row_of_def)

lemma row_of_update:
  "row_of (map (\<lambda>r. if user_id r = user_id u then u else r) d) i
     = map_option (\<lambda>r. if user_id r = user_id u then u else r) (row_of d i)"
  by (induction d) (auto simp: row_of_def)

lemma insert_keeps:
  assumes "distinct (map user_id d)" and "user_id u = next_id d"
  shows "distinct (map user_id (d @ [u]))
       \<and> (\<forall>i r. row_of d i = Some r \<longrightarrow> row_of (d @ [u]) i = Some r)"
  using assms next_id_fresh [of d] by (auto simp: row_of_append)

lemma sync_existing_keeps:
  assumes dist: "distinct (map user_id d)" and mem: "u0 \<in> set d" and kne: "kid \<noteq> []"
    and s: "sync_existing now d u0 kid uname em = Inr (d', u)"
  shows "map user_id d' = map user_id d
       \<and> (\<forall>i r. row_of d i = Some r
              \<longrightarrow> (\<exists>r'. row_of d' i = Some r' \<and>
                     (keycloak_user_id r' = keycloak_user_id r \<or>
                      (\<not> truthy (keycloak_user_id r) \<and> truthy (keycloak_user_id r')))))"
proof (cases "should_sync now (upgrade_id u0 kid) uname em")
  case False
  with s show ?thesis by (simp add: sync_existing_def Let_def)
next
  case True
  let ?u = "synced now (upgrade_id u0 kid) uname em"
  from True s have c: "commit_update d ?u = Inr (d', u)" by (simp add: sync_existing_def Let_def)
  then have d': "d' = map (\<lambda>r. if user_id r = user_id ?u then ?u else r) d"
    by (auto simp: commit_update_def split: if_splits)
  have id: "user_id ?u = user_id u0" by (simp add: synced_def upgrade_id_def)
  have kc: "keycloak_user_id ?u = keycloak_user_id u0
            \<or> (\<not> truthy (keycloak_user_id u0) \<and> truthy (keycloak_user_id ?u))"
    using kne by (simp add: synced_def upgrade_id_def)
  have ids: "map user_id d' = map user_id d" unfolding d' by (induction d) auto
  have "\<exists>r'. row_of d' i = Some r' \<and>
            (keycloak_user_id r' = keycloak_user_id r \<or>
             (\<not> truthy (keycloak_user_id r) \<and> truthy (keycloak_user_id r')))"
    if ro: "row_of d i = Some r" for i r
  proof (cases "i = user_id u0")
    case True
    with row_of_unique [OF dist mem] ro have "r = u0" by simp
    with kc have "keycloak_user_id ?u = keycloak_user_id r
            \<or> (\<not> truthy (keycloak_user_id r) \<and> truthy (keycloak_user_id ?u))" by simp
    moreover have "row_of d' i = Some ?u"
    proof -
      from row_of_mem [OF ro] True id have "user_id r = user_id ?u" by simp
      with ro show ?thesis unfolding d' row_of_update by simp
    qed
    ultimately show ?thesis by blast
  next
    case False
    have "row_of d' i = Some r"
    proof -
      from row_of_mem [OF ro] False id have "user_id r \<noteq> user_id ?u" by simp
      with ro show ?thesis unfolding d' row_of_update by simp
    qed
    then show ?thesis by blast
  qed
  with ids show ?thesis by blast
qed

lemma keeps_refl: "distinct (map user_id d) \<Longrightarrow> keeps d d"
  by (simp add: keeps_def)

lemma keeps_trans:
  assumes ab: "keeps a b" and bc: "keeps b c"
  shows "keeps a c"
proof -
  have "\<exists>r'. row_of c i = Some r' \<and>
            (keycloak_user_id r' = keycloak_user_id r \<or>
             (\<not> truthy (keycloak_user_id r) \<and> truthy (keycloak_user_id r')))"
    if ro: "row_of a i = Some r" for i r
  proof -
    from ab ro obtain r1 where r1: "row_of b i = Some r1"
      "keycloak_user_id r1 = keycloak_user_id r
       \<or> (\<not> truthy (keycloak_user_id r) \<and> truthy (keycloak_user_id r1))"
      unfolding keeps_def by blast
    from bc r1(1) obtain r2 where r2: "row_of c i = Some r2"
      "keycloak_user_id r2 = keycloak_user_id r1
       \<or> (\<not> truthy (keycloak_user_id r1) \<and> truthy (keycloak_user_id r2))"
      unfolding keeps_def by blast
    from r1(2) r2(2) have "keycloak_user_id r2 = keycloak_user_id r
       \<or> (\<not> truthy (keycloak_user_id r) \<and> truthy (keycloak_user_id r2))" by auto
    with r2(1) show ?thesis by blast
  qed
  moreover from bc have "distinct (map user_id c)" by (simp add: keeps_def)
  ultimately show ?thesis unfolding keeps_def by blast
qed

lemma resolve_keycloak_keeps:
  assumes dist: "distinct (map user_id d)" and r: "resolve_keycloak e tok d = Inr (d', u)"
  shows "keeps d d'"
proof -
  from r obtain ti :: token_info and kid uname where kne: "kid \<noteq> []" and
    c: "(lookup_user d kid uname = Inr None \<and>
          commit_insert d (new_user (utcnow e) kid uname (ti_email ti)) = Inr (d', u))
      \<or> (\<exists>u0. lookup_user d kid uname = Inr (Some u0) \<and>
          sync_existing (utcnow e) d u0 kid uname (ti_email ti) = Inr (d', u))"
    by (rule resolve_keycloak_Inr) blast
  from c show ?thesis
  proof
    assume "lookup_user d kid uname = Inr None \<and>
          commit_insert d (new_user (utcnow e) kid uname (ti_email ti)) = Inr (d', u)"
    then have "d' = d @ [u]" "user_id u = next_id d"
      by (auto simp: commit_insert_def Let_def split: if_splits)
    with insert_keeps [OF dist, of u] show ?thesis by (auto simp: keeps_def)
  next
    assume "\<exists>u0. lookup_user d kid uname = Inr (Some u0) \<and>
          sync_existing (utcnow e) d u0 kid uname (ti_email ti) = Inr (d', u)"
    then obtain u0 where l: "lookup_user d kid uname = Inr (Some u0)"
      and s: "sync_existing (utcnow e) d u0 kid uname (ti_email ti) = Inr (d', u)" by blast
    from sync_existing_keeps [OF dist lookup_user_mem [OF l] kne s] dist
    show ?thesis by (simp add: keeps_def)
  qed
qed

lemma get_current_user_keeps:
  assumes dist: "distinct (map user_id d)" and r: "get_current_user e tok d = Inr (d', u)"
  shows "keeps d d'"
proof (cases "use_keycloak e")
  case True
  with r have "resolve_keycloak e tok d = Inr (d', u)"
    by (simp add: get_current_user_def split: sum.splits)
  with dist show ?thesis by (rule resolve_keycloak_keeps)
next
  case False
  with r have "resolve_legacy e tok d = Inr (d', u)"
    by (simp add: get_current_user_def split: sum.splits)
  then have "d' = d"
    by (auto simp: resolve_legacy_def split: sum.splits option.splits prod.splits)
  with dist show ?thesis by (simp add: keeps_refl)
qed

lemma handle_keeps:
  assumes dist: "distinct (map user_id d)"
  shows "keeps d (handle e rq d)"
proof (cases rq)
  case (Register x)
  show ?thesis
  proof (cases "register e x d")
    case (Inl a)
    with Register dist show ?thesis by (simp add: keeps_refl)
  next
    case (Inr pr)
    obtain d' resp where pr: "pr = (d', resp)" by (cases pr)
    with Inr register_Inr [of e x d d' resp] obtain u where "d' = d @ [u]" "user_id u = next_id d"
      by auto
    with insert_keeps [OF dist, of u] Register Inr pr show ?thesis by (auto simp: keeps_def)
  qed
next
  case (Login x1 x2)
  with dist show ?thesis by (simp add: keeps_refl split: sum.splits)
next
  case (ResolveBearer t)
  show ?thesis
  proof (cases "get_current_user e t d")
    case (Inl a)
    with ResolveBearer dist show ?thesis by (simp add: keeps_refl)
  next
    case (Inr pr)
    obtain d' u where pr: "pr = (d', u)" by (cases pr)
    with Inr get_current_user_keeps [OF dist, of e t d' u] ResolveBearer show ?thesis by simp
  qed
next
  case (ResolveBearerOptional t)
  show ?thesis
  proof (cases "get_current_user_optional e t d")
    case (Inl a)
    with ResolveBearerOptional dist show ?thesis by (simp add: keeps_refl)
  next
    case (Inr pr)
    obtain d' uo where pr: "pr = (d', uo)" by (cases pr)
    have "keeps d d'"
    proof (cases "d' = d")
      case True
      with dist show ?thesis by (simp add: keeps_refl)
    next
      case False
      with Inr pr obtain t' u where "get_current_user e t' d = Inr (d', u)"
        by (auto simp: get_current_user_optional_def split: option.splits if_splits sum.splits exn.splits)
      with dist show ?thesis by (rule get_current_user_keeps)
    qed
    with Inr pr ResolveBearerOptional show ?thesis by simp
  qed
qed

lemma run_keeps: "distinct (map user_id d) \<Longrightarrow> keeps d (run ops d)"
proof (induction ops arbitrary: d)
  case Nil
  then show ?case by (simp add: keeps_refl)
next
  case (Cons a ops)
  obtain e rq where a: "a = (e, rq)" by (cases a)
  from handle_keeps [OF Cons.prems, of e rq] have k: "keeps d (handle e rq d)" .
  then have "distinct (map user_id (handle e rq d))" by (simp add: keeps_def)
  from Cons.IH [OF this] k a show ?case by (auto intro: keeps_trans)
qed

text \<open>
  C8 (as stated, refuted): the specification says a \<open>keycloak_user_id\<close> that is not null is
  never changed. Line 115 tests \<open>not user.keycloak_user_id\<close>, which holds for the empty
  string too: a row holding the empty string is rewritten to the \<open>sub\<close> of the token when
  the resolution syncs the row (here \<open>last_synced_at\<close> is null, so a sync is due).
\<close>

theorem C8_counterexample:
  "map keycloak_user_id [empty_id_row] = [Some []]
   \<and> map keycloak_user_id (run [(env_of grace_claims 2000, ResolveBearer ''token'')] [empty_id_row])
       = [Some ''abc'']"
  by (simp add: empty_id_row_def grace_claims_def env_of_def get_current_user_def
      resolve_keycloak_def lookup_user_def sync_existing_def upgrade_id_def should_sync_def
      synced_def commit_update_def conflicts_def)

text \<open>
  C8 (amended): on a table with distinct primary keys, through every sequence of
  registrations, logins and bearer resolutions (optional ones included), each served in any
  environment, every row is still there under its primary key, and
  \<^item> a \<open>keycloak_user_id\<close> that is a non-empty string is the same afterwards;
  \<^item> a \<open>keycloak_user_id\<close> that differs afterwards was null or the empty string before and
    is a non-empty string afterwards.
\<close>

theorem C8_federated_id_stable:
  assumes "distinct (map user_id d)" and "row_of d i = Some r"
  shows "\<exists>r'. row_of (run ops d) i = Some r'
           \<and> (\<forall>v. keycloak_user_id r = Some v \<and> v \<noteq> [] \<longrightarrow> keycloak_user_id r' = Some v)
           \<and> (keycloak_user_id r' \<noteq> keycloak_user_id r
                \<longrightarrow> (keycloak_user_id r = None \<or> keycloak_user_id r = Some [])
                    \<and> (\<exists>v. keycloak_user_id r' = Some v \<and> v \<noteq> []))"
proof -
  from run_keeps [OF assms(1), of ops] have "keeps d (run ops d)" .
  with assms(2) obtain r' where r': "row_of (run ops d) i = Some r'"
    and k: "keycloak_user_id r' = keycloak_user_id r
            \<or> (\<not> truthy (keycloak_user_id r) \<and> truthy (keycloak_user_id r'))"
    unfolding keeps_def by blast
  have t: "truthy x \<longleftrightarrow> (\<exists>v. x = Some v \<and> v \<noteq> [])" for x
    by (cases x) simp_all
  have f: "\<not> truthy x \<longleftrightarrow> x = None \<or> x = Some []" for x
    by (cases x) simp_all
  from k have a: "\<forall>v. keycloak_user_id r = Some v \<and> v \<noteq> [] \<longrightarrow> keycloak_user_id r' = Some v"
    by auto
  from k have b: "keycloak_user_id r' \<noteq> keycloak_user_id r
                \<longrightarrow> (keycloak_user_id r = None \<or> keycloak_user_id r = Some [])
                    \<and> (\<exists>v. keycloak_user_id r' = Some v \<and> v \<noteq> [])"
    using t [of "keycloak_user_id r'"] f [of "keycloak_user_id r"] by blast
  from r' a b show ?thesis by blast
qed

text \<open>
  C8, evaluated on the row \<open>grace\<close> (id \<open>abc\<close>) and four requests: a token with another
  \<open>sub\<close> and the same username, a registration, a login, and a token with the \<open>sub\<close> of
  the row.
\<close>

theorem C8_federated_id_stable_witness:
  "\<exists>r'. row_of (run [(env_of other_claims 2000, ResolveBearer ''token''),
                     (env_legacy, Register (john ''a@x.io'')),
                     (env_legacy, Login ''john.doe'' ''p4ssw0rd!''),
                     (env_of grace_claims 3000, ResolveBearerOptional (Some ''token''))] [grace_row]) 1 = Some r'
       \<and> keycloak_user_id r' = Some ''abc''"
proof -
  have d: "distinct (map user_id [grace_row])" by simp
  have ro: "row_of [grace_row] 1 = Some grace_row" by (simp add: row_of_def grace_row_def)
  have kc: "keycloak_user_id grace_row = Some ''abc'' \<and> ''abc'' \<noteq> []"
    by (simp add: grace_row_def)
  from C8_federated_id_stable [OF d ro] kc show ?thesis by blast
qed

text \<open>
  The upgrade of a legacy row is committed by a resolution that syncs the row, and by no
  other: a row without \<open>keycloak_user_id\<close> that is not due for a sync is returned with the
  attribute written on the object, and the table keeps the null.
\<close>

lemma legacy_row_upgraded:
  "map keycloak_user_id (run [(env_of grace_claims 2000, ResolveBearer ''token'')] [legacy_row])
     = [Some ''abc'']"
  by code_simp

lemma unlinked_row_not_upgraded_without_sync:
  "get_current_user (env_of grace_claims 2000) ''token'' [unlinked_row]
     = Inr ([unlinked_row], unlinked_row\<lparr>keycloak_user_id := Some ''abc''\<rparr>)"
  by (simp add: unlinked_row_def grace_claims_def env_of_def get_current_user_def
      resolve_keycloak_def lookup_user_def sync_existing_def upgrade_id_def should_sync_def)

lemma C8_run_example:
  "map keycloak_user_id (run [(env_of other_claims 2000, ResolveBearer ''token''),
                     (env_legacy, Register (john ''a@x.io'')),
                     (env_legacy, Login ''john.doe'' ''p4ssw0rd!''),
                     (env_of grace_claims 3000, ResolveBearerOptional (Some ''token''))] [grace_row])
   = [Some ''abc'', None]"
  by code_simp

section \<open>The optional entry point\<close>

text \<open>
  C9: \<open>get_current_user_optional\<close> returns \<open>None\<close> and the table as it was when no token
  or the empty token is supplied, and whenever \<open>get_current_user\<close> fails on the token
  supplied; it raises nothing.
\<close>

theorem C9_optional_never_raises:
  "((token = None \<or> token = Some []) \<longrightarrow> get_current_user_optional e token d = Inr (d, None))
   \<and> (\<forall>t x. token = Some t \<and> t \<noteq> [] \<and> get_current_user e t d = Inl x
         \<longrightarrow> get_current_user_optional e token d = Inr (d, None))
   \<and> (\<forall>x. get_current_user_optional e token d \<noteq> Inl x)"
proof -
  have h: "\<And>t x. get_current_user e t d = Inl x \<Longrightarrow> x = HTTPException 401 ''Could not validate user.''"
    by (auto simp: get_current_user_def split: sum.splits)
  have a: "(token = None \<or> token = Some []) \<longrightarrow> get_current_user_optional e token d = Inr (d, None)"
    by (auto simp: get_current_user_optional_def)
  have b: "\<forall>t x. token = Some t \<and> t \<noteq> [] \<and> get_current_user e t d = Inl x
         \<longrightarrow> get_current_user_optional e token d = Inr (d, None)"
  proof (intro allI impI)
    fix t x assume p: "token = Some t \<and> t \<noteq> [] \<and> get_current_user e t d = Inl x"
    with h [of t x] show "get_current_user_optional e token d = Inr (d, None)"
      by (simp add: get_current_user_optional_def)
  qed
  have c: "\<forall>x. get_current_user_optional e token d \<noteq> Inl x"
  proof (cases token)
    case None
    then show ?thesis by (simp add: get_current_user_optional_def)
  next
    case (Some t)
    show ?thesis
    proof (cases "get_current_user e t d")
      case (Inl x)
      with h [of t x] Some show ?thesis by (simp add: get_current_user_optional_def)
    next
      case (Inr r)
      with Some show ?thesis by (simp add: get_current_user_optional_def split: prod.splits)
    qed
  qed
  from a b c show ?thesis by blast
qed

text \<open>
  C9, evaluated with no token and with a token the identity provider cannot verify.
\<close>

theorem C9_optional_never_raises_witness:
  "get_current_user_optional idp_down None [grace_row] = Inr ([grace_row], None)
   \<and> get_current_user_optional idp_down (Some ''token'') [grace_row] = Inr ([grace_row], None)"
proof -
  have "get_current_user idp_down ''token'' [grace_row] = Inl (HTTPException 401 ''Could not validate user.'')"
    by (simp add: get_current_user_def resolve_keycloak_def idp_down_def)
  with C9_optional_never_raises [of None idp_down "[grace_row]"]
    C9_optional_never_raises [of "Some ''token''" idp_down "[grace_row]"]
  show ?thesis by blast
qed

section \<open>Every failure of the federated path is the same 401\<close>

text \<open>
  C10: in Keycloak mode, whatever \<open>get_current_user\<close> raises is HTTP 401
  "Could not validate user."; that is what it raises when \<open>verify_keycloak_token\<close>
  raises, when the token is not active, when a claim is missing, and whenever the lookup,
  the insert or the sync raises.
\<close>

theorem C10_federated_failures_are_401:
  assumes "use_keycloak e"
  shows "(\<forall>x. get_current_user e tok d = Inl x \<longrightarrow> x = HTTPException 401 ''Could not validate user.'')
    \<and> (\<forall>y. verify_keycloak_token e tok = Inl y
           \<longrightarrow> get_current_user e tok d = Inl (HTTPException 401 ''Could not validate user.''))
    \<and> (\<forall>ti. verify_keycloak_token e tok = Inr ti \<and>
             (\<not> ti_active ti \<or> \<not> truthy (ti_preferred_username ti) \<or> \<not> truthy (ti_keycloak_user_id ti))
           \<longrightarrow> get_current_user e tok d = Inl (HTTPException 401 ''Could not validate user.''))
    \<and> (\<forall>y. resolve_keycloak e tok d = Inl y
           \<longrightarrow> get_current_user e tok d = Inl (HTTPException 401 ''Could not validate user.''))"
proof -
  have g: "\<And>y. resolve_keycloak e tok d = Inl y
           \<Longrightarrow> get_current_user e tok d = Inl (HTTPException 401 ''Could not validate user.'')"
    using assms by (simp add: get_current_user_def)
  have a: "\<forall>x. get_current_user e tok d = Inl x \<longrightarrow> x = HTTPException 401 ''Could not validate user.''"
    by (auto simp: get_current_user_def split: sum.splits)
  have b: "\<forall>y. verify_keycloak_token e tok = Inl y
           \<longrightarrow> get_current_user e tok d = Inl (HTTPException 401 ''Could not validate user.'')"
    using assms by (simp add: get_current_user_def resolve_keycloak_def)
  have c: "\<forall>ti. verify_keycloak_token e tok = Inr ti \<and>
             (\<not> ti_active ti \<or> \<not> truthy (ti_preferred_username ti) \<or> \<not> truthy (ti_keycloak_user_id ti))
           \<longrightarrow> get_current_user e tok d = Inl (HTTPException 401 ''Could not validate user.'')"
    using assms by (auto simp: get_current_user_def resolve_keycloak_def)
  from a b c g show ?thesis by blast
qed

text \<open>
  C10, evaluated with an identity provider that refuses the connection.
\<close>

theorem C10_federated_failures_are_401_witness:
  "get_current_user idp_down ''token'' [grace_row] = Inl (HTTPException 401 ''Could not validate user.'')"
proof -
  have u: "use_keycloak idp_down"
    by (simp add: idp_down_def)
  have v: "verify_keycloak_token idp_down ''token'' = Inl (Raised KeycloakError ''Connection refused'')"
    by (simp add: idp_down_def)
  from C10_federated_failures_are_401 [OF u, of "''token''" "[grace_row]"] v
  show ?thesis by blast
qed

end
